theory Spec2Isabelle
  imports Main "HOL-Library.Product_Lexorder"
begin

section \<open>Data model\<close>

subsection \<open>Python values, strings and errors\<close>

text \<open>
  The values an attribute or a keyword argument carries: a Python \<open>int\<close>, a \<open>str\<close> or
  \<open>None\<close>. Floats and booleans are not modelled.
\<close>

datatype pyval = IntV int | StrV string | NoneV

datatype py_error = NotImplementedError | AttributeError | TypeError

text \<open>
  \<open>str.lower()\<close>: the letters \<open>A\<close> to \<open>Z\<close> (codes 65 to 90) move to \<open>a\<close> to \<open>z\<close>, every
  other byte stays as it is.
\<close>

definition lower_char :: "char \<Rightarrow> char" where
  "lower_char c =
     (let n = (of_char c :: nat) in if 65 \<le> n \<and> n \<le> 90 then char_of (n + 32) else c)"

definition lower :: "string \<Rightarrow> string" where
  "lower s = map lower_char s"

subsection \<open>Timestamps and time ranges\<close>

text \<open>
  A naive \<open>datetime.datetime\<close>. Python compares two of them field by field, from the year
  down to the microsecond; \<open>dt_key\<close> is that tuple, ordered lexicographically.
\<close>

record datetime =
  year :: nat
  month :: nat
  day :: nat
  hour :: nat
  minute :: nat
  second :: nat
  microsecond :: nat

definition mk_datetime :: "nat \<Rightarrow> nat \<Rightarrow> nat \<Rightarrow> nat \<Rightarrow> nat \<Rightarrow> datetime" where
  "mk_datetime y m d h mi =
     \<lparr>year = y, month = m, day = d, hour = h, minute = mi, second = 0, microsecond = 0\<rparr>"

definition mk_date :: "nat \<Rightarrow> nat \<Rightarrow> nat \<Rightarrow> datetime" where
  "mk_date y m d = mk_datetime y m d 0 0"

definition dt_key :: "datetime \<Rightarrow> nat \<times> nat \<times> nat \<times> nat \<times> nat \<times> nat \<times> nat" where
  "dt_key t = (year t, month t, day t, hour t, minute t, second t, microsecond t)"

definition dt_le :: "datetime \<Rightarrow> datetime \<Rightarrow> bool" where
  "dt_le a b = (dt_key a \<le> dt_key b)"

definition dt_lt :: "datetime \<Rightarrow> datetime \<Rightarrow> bool" where
  "dt_lt a b = (dt_key a < dt_key b)"

text \<open>\<open>datetime.time()\<close>: the time of day, as (hour, minute, second, microsecond).\<close>

definition time_of :: "datetime \<Rightarrow> nat \<times> nat \<times> nat \<times> nat" where
  "time_of t = (hour t, minute t, second t, microsecond t)"

text \<open>\<open>datetime.time(h, m)\<close>: seconds and microseconds default to zero.\<close>

definition mk_time :: "nat \<Rightarrow> nat \<Rightarrow> nat \<times> nat \<times> nat \<times> nat" where
  "mk_time h mi = (h, mi, 0, 0)"

text \<open>
  Modelled from the spec: \<open>sunpy.time.TimeRange\<close> is not among the sources. The
  specification describes it as an immutable closed interval of timestamps with the
  invariant that the start is not after the end; \<open>valid_timerange\<close> is that invariant.
\<close>

record timerange =
  tr_start :: datetime
  tr_end :: datetime

definition TimeRange :: "datetime \<Rightarrow> datetime \<Rightarrow> timerange" where
  "TimeRange a b = \<lparr>tr_start = a, tr_end = b\<rparr>"

definition valid_timerange :: "timerange \<Rightarrow> bool" where
  "valid_timerange r = dt_le (tr_start r) (tr_end r)"

text \<open>
  Modelled from the spec: \<open>sunpy.time.parse_time\<close> is not among the sources. The clients
  render the start with \<open>%Y-%m-%d\<close> (or \<open>%Y-%m-%d %H:00\<close>) and hand the text to
  \<open>TimeRange\<close>, which parses it back: the calendar day (and the hour) survive, the
  fields the format leaves out are zero.
\<close>

definition parse_format_Ymd :: "datetime \<Rightarrow> datetime" where
  "parse_format_Ymd t = mk_datetime (year t) (month t) (day t) 0 0"

definition parse_format_Ymd_H00 :: "datetime \<Rightarrow> datetime" where
  "parse_format_Ymd_H00 t = mk_datetime (year t) (month t) (day t) (hour t) 0"

subsection \<open>Query terms\<close>

text \<open>
  The attribute objects of a query, by class: \<open>Instrument\<close> (its value is a string),
  \<open>Level\<close> (an integer or a string), \<open>Time\<close> (start and end) and \<open>Source\<close>.
\<close>

datatype query_term =
    Instrument string
  | Level pyval
  | Time datetime datetime
  | Source string

text \<open>\<open>x.__class__.__name__\<close>\<close>

fun class_name :: "query_term \<Rightarrow> string" where
  "class_name (Instrument v) = ''Instrument''"
| "class_name (Level v) = ''Level''"
| "class_name (Time s e) = ''Time''"
| "class_name (Source v) = ''Source''"

section \<open>Query predicates\<close>

subsection \<open>Level 0: \<open>EVEClient._can_handle_query\<close>\<close>

text \<open>The body of the loop: \<open>chk_var\<close> is a running count.\<close>

fun EVEClient_chk :: "nat \<Rightarrow> query_term \<Rightarrow> nat" where
  "EVEClient_chk chk_var (Instrument v) =
     (if lower v = ''eve'' then chk_var + 1 else chk_var)"
| "EVEClient_chk chk_var (Level v) =
     (if v = IntV 0 then chk_var + 1 else chk_var)"
| "EVEClient_chk chk_var x = chk_var"

definition EVEClient_can_handle_query :: "query_term list \<Rightarrow> bool" where
  "EVEClient_can_handle_query query =
     (let chk_var = foldl EVEClient_chk 0 query in
      if chk_var = 2 then True else False)"

subsection \<open>Level 2B: \<open>EVELevel2BClient._can_handle_query\<close>\<close>

text \<open>The body of the loop: \<open>chk_var\<close> is a set of class names.\<close>

fun EVELevel2BClient_chk :: "string set \<Rightarrow> query_term \<Rightarrow> string set" where
  "EVELevel2BClient_chk chk_var (Instrument v) =
     (if lower v = ''eve'' then insert (class_name (Instrument v)) chk_var else chk_var)"
| "EVELevel2BClient_chk chk_var (Level v) =
     (if (case v of StrV s \<Rightarrow> lower s = ''2b'' | _ \<Rightarrow> False)
      then insert (class_name (Level v)) chk_var else chk_var)"
| "EVELevel2BClient_chk chk_var (Time s e) =
     (if dt_le (mk_date 2018 4 20) e
      then insert (class_name (Time s e)) chk_var else chk_var)"
| "EVELevel2BClient_chk chk_var x = chk_var"

definition EVELevel2BClient_can_handle_query :: "query_term list \<Rightarrow> bool" where
  "EVELevel2BClient_can_handle_query query =
     (card (foldl EVELevel2BClient_chk {} query) = 3)"

subsection \<open>Level 2: \<open>EVELevel2Client._can_handle_query\<close>\<close>

fun EVELevel2Client_chk :: "string set \<Rightarrow> query_term \<Rightarrow> string set" where
  "EVELevel2Client_chk chk_var (Instrument v) =
     (if lower v = ''eve'' then insert (class_name (Instrument v)) chk_var else chk_var)"
| "EVELevel2Client_chk chk_var (Level v) =
     (if (case v of IntV n \<Rightarrow> n = 2 | StrV s \<Rightarrow> s = ''2'' | _ \<Rightarrow> False)
      then insert (class_name (Level v)) chk_var else chk_var)"
| "EVELevel2Client_chk chk_var (Time s e) =
     (if dt_lt s (mk_date 2018 4 28)
      then insert (class_name (Time s e)) chk_var else chk_var)"
| "EVELevel2Client_chk chk_var x = chk_var"

definition EVELevel2Client_can_handle_query :: "query_term list \<Rightarrow> bool" where
  "EVELevel2Client_can_handle_query query =
     (card (foldl EVELevel2Client_chk {} query) = 3)"

subsection \<open>Level 3: \<open>EVELevel3Client._can_handle_query\<close>\<close>

fun EVELevel3Client_chk :: "string set \<Rightarrow> query_term \<Rightarrow> string set" where
  "EVELevel3Client_chk chk_var (Instrument v) =
     (if lower v = ''eve'' then insert (class_name (Instrument v)) chk_var else chk_var)"
| "EVELevel3Client_chk chk_var (Level v) =
     (if (case v of IntV n \<Rightarrow> n = 3 | StrV s \<Rightarrow> s = ''3'' | _ \<Rightarrow> False)
      then insert (class_name (Level v)) chk_var else chk_var)"
| "EVELevel3Client_chk chk_var x = chk_var"

definition EVELevel3Client_can_handle_query :: "query_term list \<Rightarrow> bool" where
  "EVELevel3Client_can_handle_query query =
     (card (foldl EVELevel3Client_chk {} query) = 2)"

subsection \<open>Level 3 merged: \<open>EVELevel3MergedClient._can_handle_query\<close>\<close>

fun EVELevel3MergedClient_chk :: "string set \<Rightarrow> query_term \<Rightarrow> string set" where
  "EVELevel3MergedClient_chk chk_var (Instrument v) =
     (if lower v = ''eve'' then insert (class_name (Instrument v)) chk_var else chk_var)"
| "EVELevel3MergedClient_chk chk_var (Level v) =
     (if (case v of StrV s \<Rightarrow> lower s \<in> set [''3m'', ''3merged''] | _ \<Rightarrow> False)
      then insert (class_name (Level v)) chk_var else chk_var)"
| "EVELevel3MergedClient_chk chk_var x = chk_var"

definition EVELevel3MergedClient_can_handle_query :: "query_term list \<Rightarrow> bool" where
  "EVELevel3MergedClient_can_handle_query query =
     (card (foldl EVELevel3MergedClient_chk {} query) = 2)"

section \<open>Requirement conditions\<close>

text \<open>
  The condition each branch of the loops above tests, one predicate for each; the
  characterisations of the predicates further down are stated with them.
\<close>

fun is_instrument_eve :: "query_term \<Rightarrow> bool" where
  "is_instrument_eve (Instrument v) = (lower v = ''eve'')"
| "is_instrument_eve x = False"

fun is_level_0 :: "query_term \<Rightarrow> bool" where
  "is_level_0 (Level v) = (v = IntV 0)"
| "is_level_0 x = False"

fun is_level_2b :: "query_term \<Rightarrow> bool" where
  "is_level_2b (Level (StrV s)) = (lower s = ''2b'')"
| "is_level_2b x = False"

fun is_level_2 :: "query_term \<Rightarrow> bool" where
  "is_level_2 (Level (IntV n)) = (n = 2)"
| "is_level_2 (Level (StrV s)) = (s = ''2'')"
| "is_level_2 x = False"

fun is_level_3 :: "query_term \<Rightarrow> bool" where
  "is_level_3 (Level (IntV n)) = (n = 3)"
| "is_level_3 (Level (StrV s)) = (s = ''3'')"
| "is_level_3 x = False"

fun is_level_3m :: "query_term \<Rightarrow> bool" where
  "is_level_3m (Level (StrV s)) = (lower s = ''3m'' \<or> lower s = ''3merged'')"
| "is_level_3m x = False"

fun is_time_2b :: "query_term \<Rightarrow> bool" where
  "is_time_2b (Time s e) = dt_le (mk_date 2018 4 20) e"
| "is_time_2b x = False"

fun is_time_2 :: "query_term \<Rightarrow> bool" where
  "is_time_2 (Time s e) = dt_lt s (mk_date 2018 4 28)"
| "is_time_2 x = False"

text \<open>
  The contract of the query predicate as the specification words it: the collection
  holds exactly the required terms, one for each requirement and nothing besides.
\<close>

definition exactly_required :: "(query_term \<Rightarrow> bool) list \<Rightarrow> query_term list \<Rightarrow> bool" where
  "exactly_required reqs query =
     (length query = length reqs \<and> list_all (\<lambda>r. length (filter r query) = 1) reqs)"

section \<open>URL discovery\<close>

subsection \<open>The scraper\<close>

text \<open>
  Modelled from the spec: \<open>sunpy.util.scraper.Scraper\<close> is not among the sources. A
  scraper holds the URL pattern and the constant fields bound at construction.
\<close>

record scraper =
  scr_pattern :: string
  scr_product :: string
  scr_version :: nat
  scr_revision :: nat

definition Scraper :: "string \<Rightarrow> string \<Rightarrow> nat \<Rightarrow> nat \<Rightarrow> scraper" where
  "Scraper p pname vers revi =
     \<lparr>scr_pattern = p, scr_product = pname, scr_version = vers, scr_revision = revi\<rparr>"

definition sentinel_epoch :: datetime where
  "sentinel_epoch = mk_date 1900 1 1"

text \<open>
  Modelled from the spec: \<open>Scraper.filelist\<close> is not among the sources. The
  specification has it list one URL for each date partition of the pattern that the
  interval covers; a pattern without a date token (\<open>%\<close>) names one file, whose date
  defaults to the sentinel epoch 1900-01-01, so it is listed when the interval holds
  that date. The URLs of the partitions of a dated pattern are not computed here: they
  are the parameter \<open>listing\<close>, a function of the pattern and the interval. For an
  undated pattern the specification's enumeration depends on the interval alone, and
  \<open>listing\<close> is not asked.
\<close>

definition Scraper_filelist ::
  "(string \<Rightarrow> timerange \<Rightarrow> string list) \<Rightarrow> scraper \<Rightarrow> timerange \<Rightarrow> string list" where
  "Scraper_filelist listing scr r =
     (if CHR ''%'' \<in> set (scr_pattern scr) then listing (scr_pattern scr) r
      else if dt_le (tr_start r) sentinel_epoch \<and> dt_le sentinel_epoch (tr_end r)
           then [scr_pattern scr]
           else [])"

subsection \<open>Class attributes and construction\<close>

datatype product_url = NotImplemented | UrlPattern string

record eve_class =
  HOST_URL :: string
  PRODUCT_URL :: product_url
  PRODUCT_NAME :: string
  VERSION :: nat
  REVISION :: nat

definition BASEURL :: string where
  "BASEURL = ''http://lasp.colorado.edu/eve/data_access/evewebdata/quicklook/'' @
             ''L0CS/SpWx/%Y/%Y%m%d_EVE_L0CS_DIODES_1m.txt''"

definition BaseEVEClient :: eve_class where
  "BaseEVEClient =
     \<lparr>HOST_URL = ''http://lasp.colorado.edu/eve/data_access/evewebdataproducts/'',
      PRODUCT_URL = NotImplemented,
      PRODUCT_NAME = ''S'',
      VERSION = 6,
      REVISION = 2\<rparr>"

definition EVELevel2BClient :: eve_class where
  "EVELevel2BClient = BaseEVEClient
     \<lparr>PRODUCT_URL := UrlPattern
        ''level2b/%Y/%j/EV{product}_L2B_%Y%j_{version:03d}_{revision:02d}.fit.gz''\<rparr>"

definition EVELevel2Client :: eve_class where
  "EVELevel2Client = BaseEVEClient
     \<lparr>PRODUCT_URL := UrlPattern
        ''level2/%Y/%j/EV{product}_L2_%Y%j_%H_{version:03d}_{revision:02d}.fit.gz''\<rparr>"

definition EVELevel3Client :: eve_class where
  "EVELevel3Client = BaseEVEClient
     \<lparr>PRODUCT_URL := UrlPattern
        ''level3/%Y/EVE_L3_%Y%j_{version:03d}_{revision:02d}.fit''\<rparr>"

definition EVELevel3MergedClient :: eve_class where
  "EVELevel3MergedClient = BaseEVEClient
     \<lparr>PRODUCT_URL := UrlPattern ''merged/latest_EVE_L3_merged.fit''\<rparr>"

text \<open>
  Modelled from the spec: \<open>GenericClient.__init__\<close> is not among the sources; the
  generic client is an external collaborator, and its construction (called without
  arguments) does not fail.
\<close>

definition GenericClient_init :: "py_error + unit" where
  "GenericClient_init = Inr ()"

text \<open>
  \<open>_BaseEVEClient.__init__\<close>: the instance is its scraper, or the error raised.
\<close>

definition BaseEVEClient_init :: "eve_class \<Rightarrow> py_error + scraper" where
  "BaseEVEClient_init cls =
     (case GenericClient_init of
        Inl e \<Rightarrow> Inl e
      | Inr u \<Rightarrow>
          (case PRODUCT_URL cls of
             NotImplemented \<Rightarrow> Inl NotImplementedError
           | UrlPattern p \<Rightarrow>
               Inr (Scraper (HOST_URL cls @ p) (PRODUCT_NAME cls) (VERSION cls) (REVISION cls))))"

text \<open>\<open>EVEClient\<close> defines no constructor of its own: the generic one runs.\<close>

definition EVEClient_init :: "py_error + unit" where
  "EVEClient_init = GenericClient_init"

subsection \<open>\<open>_get_url_for_timerange\<close>\<close>

text \<open>
  The interval each client hands to the scraper: the \<open>if\<close> statement at the head of
  \<open>_get_url_for_timerange\<close>. The daily clients (level 0, 2B and 3) share its text.
\<close>

definition daily_timerange :: "timerange \<Rightarrow> timerange" where
  "daily_timerange r =
     (if time_of (tr_start r) \<noteq> mk_time 0 0
      then TimeRange (parse_format_Ymd (tr_start r)) (tr_end r)
      else r)"

definition hourly_timerange :: "timerange \<Rightarrow> timerange" where
  "hourly_timerange r =
     (if time_of (tr_start r) \<noteq> mk_time (hour (tr_start r)) 0
      then TimeRange (parse_format_Ymd_H00 (tr_start r)) (tr_end r)
      else r)"

definition EVEClient_get_url_for_timerange ::
  "(string \<Rightarrow> timerange \<Rightarrow> string list) \<Rightarrow> timerange \<Rightarrow> string list" where
  "EVEClient_get_url_for_timerange listing r =
     Scraper_filelist listing (Scraper BASEURL [] 0 0) (daily_timerange r)"

definition EVELevel2BClient_get_url_for_timerange ::
  "(string \<Rightarrow> timerange \<Rightarrow> string list) \<Rightarrow> scraper \<Rightarrow> timerange \<Rightarrow> string list" where
  "EVELevel2BClient_get_url_for_timerange listing scrapper r =
     Scraper_filelist listing scrapper (daily_timerange r)"

definition EVELevel2Client_get_url_for_timerange ::
  "(string \<Rightarrow> timerange \<Rightarrow> string list) \<Rightarrow> scraper \<Rightarrow> timerange \<Rightarrow> string list" where
  "EVELevel2Client_get_url_for_timerange listing scrapper r =
     Scraper_filelist listing scrapper (hourly_timerange r)"

definition EVELevel3Client_get_url_for_timerange ::
  "(string \<Rightarrow> timerange \<Rightarrow> string list) \<Rightarrow> scraper \<Rightarrow> timerange \<Rightarrow> string list" where
  "EVELevel3Client_get_url_for_timerange listing scrapper r =
     Scraper_filelist listing scrapper (daily_timerange r)"

text \<open>
  The merged product: \<open>today\<close> is what \<open>datetime.date.today()\<close> returns, a calendar day
  (year, month, day), which \<open>TimeRange\<close> reads as the midnight that begins it.
\<close>

definition full_timerange :: "nat \<times> nat \<times> nat \<Rightarrow> timerange" where
  "full_timerange today =
     (case today of (y, m, d) \<Rightarrow> TimeRange (mk_date 1900 1 1) (mk_date y m d))"

definition EVELevel3MergedClient_get_url_for_timerange ::
  "(string \<Rightarrow> timerange \<Rightarrow> string list) \<Rightarrow> scraper \<Rightarrow> nat \<times> nat \<times> nat \<Rightarrow>
     timerange \<Rightarrow> string list" where
  "EVELevel3MergedClient_get_url_for_timerange listing scrapper today r =
     Scraper_filelist listing scrapper (full_timerange today)"

fun EVELevel3MergedClient_get_time_for_url ::
  "nat \<times> nat \<times> nat \<Rightarrow> string list \<Rightarrow> timerange list" where
  "EVELevel3MergedClient_get_time_for_url today [] = []"
| "EVELevel3MergedClient_get_time_for_url today (url # urls) =
     full_timerange today # EVELevel3MergedClient_get_time_for_url today urls"

section \<open>Time series sources: \<open>is_datasource_for\<close>\<close>

text \<open>Python's truth value of an object.\<close>

fun truthy :: "pyval \<Rightarrow> bool" where
  "truthy (IntV n) = (n \<noteq> 0)"
| "truthy (StrV s) = (s \<noteq> [])"
| "truthy NoneV = False"

text \<open>\<open>dict.get(key, default)\<close>\<close>

definition dict_get :: "(string \<rightharpoonup> pyval) \<Rightarrow> string \<Rightarrow> pyval \<Rightarrow> pyval" where
  "dict_get kwargs k dflt = (case kwargs k of None \<Rightarrow> dflt | Some v \<Rightarrow> v)"

text \<open>
  What \<open>is_datasource_for\<close> hands back: \<open>None\<close> (also when the function ends without a
  \<open>return\<close>), a boolean, or the match object of \<open>re.match\<close> (with the text it matched).
\<close>

datatype pyret = RetNone | RetBool bool | RetMatch string

definition EVESpWxTimeSeries_source :: string where
  "EVESpWxTimeSeries_source = ''eve''"

definition EVESpWxTimeSeries_is_datasource_for :: "(string \<rightharpoonup> pyval) \<Rightarrow> py_error + pyret" where
  "EVESpWxTimeSeries_is_datasource_for kwargs =
     (if truthy (dict_get kwargs ''source'' (StrV []))
      then (case dict_get kwargs ''source'' (StrV []) of
              StrV s \<Rightarrow> Inr (RetBool (lower s = EVESpWxTimeSeries_source))
            | _ \<Rightarrow> Inl AttributeError)
      else Inr RetNone)"

text \<open>
  The pattern \<open>^eve[_ ]l2b?$\<close>, an item for each position. \<open>rx_step\<close> gives the rests of the
  text after one item, \<open>rx_run\<close> after all of them, the greedy choice first; letters
  compare without case (\<open>re.I\<close>), and \<open>$\<close> holds at the end of the text or before a
  newline that ends it. The match object carries the text matched: the input without
  the rest that \<open>$\<close> left unread.
\<close>

datatype rx = Chr char | OneOf "char list" | Opt rx

fun rx_step :: "rx \<Rightarrow> string \<Rightarrow> string list" where
  "rx_step (Chr c) [] = []"
| "rx_step (Chr c) (x # xs) = (if lower_char x = lower_char c then [xs] else [])"
| "rx_step (OneOf cs) [] = []"
| "rx_step (OneOf cs) (x # xs) = (if lower_char x \<in> set (map lower_char cs) then [xs] else [])"
| "rx_step (Opt r) s = rx_step r s @ [s]"

fun rx_run :: "rx list \<Rightarrow> string \<Rightarrow> string list" where
  "rx_run [] s = [s]"
| "rx_run (r # rs) s = concat (map (rx_run rs) (rx_step r s))"

definition at_dollar :: "string \<Rightarrow> bool" where
  "at_dollar s = (s = [] \<or> s = [CHR 0x0A])"

definition eve_l2b_pattern :: "rx list" where
  "eve_l2b_pattern =
     [Chr CHR ''e'', Chr CHR ''v'', Chr CHR ''e'', OneOf ''_ '', Chr CHR ''l'', Chr CHR ''2'',
      Opt (Chr CHR ''b'')]"

definition re_match_I :: "rx list \<Rightarrow> string \<Rightarrow> pyret" where
  "re_match_I p s =
     (case filter at_dollar (rx_run p s) of
        [] \<Rightarrow> RetNone
      | rest # others \<Rightarrow> RetMatch (take (length s - length rest) s))"

definition EVEScanTimeSeries_is_datasource_for :: "(string \<rightharpoonup> pyval) \<Rightarrow> py_error + pyret" where
  "EVEScanTimeSeries_is_datasource_for kwargs =
     (if truthy (dict_get kwargs ''source'' (StrV []))
      then (case kwargs ''source'' of
              Some (StrV s) \<Rightarrow> Inr (re_match_I eve_l2b_pattern s)
            | _ \<Rightarrow> Inl TypeError)
      else Inr RetNone)"

section \<open>What the loops compute\<close>

subsection \<open>Sets of class names\<close>

lemma kind_fold:
  assumes step: "\<And>A x. f A x = (if P x then insert (class_name x) A else A)"
  shows "foldl f A q = A \<union> class_name ` {x \<in> set q. P x}"
proof (induction q arbitrary: A)
  case Nil
  show ?case by simp
next
  case (Cons x q)
  have "foldl f A (x # q) = f A x \<union> class_name ` {y \<in> set q. P y}"
    using Cons.IH [of "f A x"] by (simp only: foldl_Cons)
  also have "\<dots> = A \<union> class_name ` {y \<in> set (x # q). P y}"
    by (auto simp: step)
  finally show ?case .
qed

lemma card3_subset_iff:
  assumes "S \<subseteq> {a, b, c}" "a \<noteq> b" "a \<noteq> c" "b \<noteq> c"
  shows "card S = 3 \<longleftrightarrow> a \<in> S \<and> b \<in> S \<and> c \<in> S"
proof
  assume c: "card S = 3"
  have "card {a, b, c} = 3" using assms by simp
  with c assms(1) have "S = {a, b, c}"
    by (metis card_subset_eq finite.emptyI finite.insertI)
  then show "a \<in> S \<and> b \<in> S \<and> c \<in> S" by simp
next
  assume "a \<in> S \<and> b \<in> S \<and> c \<in> S"
  with assms(1) have "S = {a, b, c}" by auto
  then show "card S = 3" using assms by simp
qed

lemma card2_subset_iff:
  assumes "S \<subseteq> {a, b}" "a \<noteq> b"
  shows "card S = 2 \<longleftrightarrow> a \<in> S \<and> b \<in> S"
proof
  assume c: "card S = 2"
  have "card {a, b} = 2" using assms by simp
  with c assms(1) have "S = {a, b}"
    by (metis card_subset_eq finite.emptyI finite.insertI)
  then show "a \<in> S \<and> b \<in> S" by simp
next
  assume "a \<in> S \<and> b \<in> S"
  with assms(1) have "S = {a, b}" by auto
  then show "card S = 2" using assms by simp
qed

text \<open>
  Three requirements of the classes \<open>Instrument\<close>, \<open>Level\<close> and \<open>Time\<close>: the set of names
  is full exactly when each requirement has a term that meets it.
\<close>

lemma three_kinds:
  assumes i: "\<And>x. I x \<Longrightarrow> class_name x = ''Instrument''"
    and l: "\<And>x. L x \<Longrightarrow> class_name x = ''Level''"
    and t: "\<And>x. T x \<Longrightarrow> class_name x = ''Time''"
  shows "card (class_name ` {x \<in> set q. I x \<or> L x \<or> T x}) = 3 \<longleftrightarrow>
           (\<exists>x\<in>set q. I x) \<and> (\<exists>x\<in>set q. L x) \<and> (\<exists>x\<in>set q. T x)"
proof -
  let ?S = "class_name ` {x \<in> set q. I x \<or> L x \<or> T x}"
  have sub: "?S \<subseteq> {''Instrument'', ''Level'', ''Time''}"
    by (auto dest: i l t)
  have mi: "''Instrument'' \<in> ?S \<longleftrightarrow> (\<exists>x\<in>set q. I x)"
    by (force dest: i l t simp: image_iff)
  have ml: "''Level'' \<in> ?S \<longleftrightarrow> (\<exists>x\<in>set q. L x)"
    by (force dest: i l t simp: image_iff)
  have mt: "''Time'' \<in> ?S \<longleftrightarrow> (\<exists>x\<in>set q. T x)"
    by (force dest: i l t simp: image_iff)
  have "card ?S = 3 \<longleftrightarrow> ''Instrument'' \<in> ?S \<and> ''Level'' \<in> ?S \<and> ''Time'' \<in> ?S"
    by (rule card3_subset_iff [OF sub]) simp_all
  then show ?thesis unfolding mi ml mt .
qed

lemma two_kinds:
  assumes i: "\<And>x. I x \<Longrightarrow> class_name x = ''Instrument''"
    and l: "\<And>x. L x \<Longrightarrow> class_name x = ''Level''"
  shows "card (class_name ` {x \<in> set q. I x \<or> L x}) = 2 \<longleftrightarrow>
           (\<exists>x\<in>set q. I x) \<and> (\<exists>x\<in>set q. L x)"
proof -
  let ?S = "class_name ` {x \<in> set q. I x \<or> L x}"
  have sub: "?S \<subseteq> {''Instrument'', ''Level''}"
    by (auto dest: i l)
  have mi: "''Instrument'' \<in> ?S \<longleftrightarrow> (\<exists>x\<in>set q. I x)"
    by (force dest: i l simp: image_iff)
  have ml: "''Level'' \<in> ?S \<longleftrightarrow> (\<exists>x\<in>set q. L x)"
    by (force dest: i l simp: image_iff)
  have "card ?S = 2 \<longleftrightarrow> ''Instrument'' \<in> ?S \<and> ''Level'' \<in> ?S"
    by (rule card2_subset_iff [OF sub]) simp
  then show ?thesis unfolding mi ml .
qed

lemma is_instrument_eve_name: "is_instrument_eve x \<Longrightarrow> class_name x = ''Instrument''"
  by (cases x) auto

lemma is_level_2b_name: "is_level_2b x \<Longrightarrow> class_name x = ''Level''"
  by (cases x) auto

lemma is_level_2_name: "is_level_2 x \<Longrightarrow> class_name x = ''Level''"
  by (cases x) auto

lemma is_level_3_name: "is_level_3 x \<Longrightarrow> class_name x = ''Level''"
  by (cases x) auto

lemma is_level_3m_name: "is_level_3m x \<Longrightarrow> class_name x = ''Level''"
  by (cases x) auto

lemma is_time_2b_name: "is_time_2b x \<Longrightarrow> class_name x = ''Time''"
  by (cases x) auto

lemma is_time_2_name: "is_time_2 x \<Longrightarrow> class_name x = ''Time''"
  by (cases x) auto

subsection \<open>The branches of each loop\<close>

lemma EVELevel2BClient_chk_eq:
  "EVELevel2BClient_chk A x =
     (if is_instrument_eve x \<or> is_level_2b x \<or> is_time_2b x
      then insert (class_name x) A else A)"
  by (cases x) (auto split: pyval.splits)

lemma EVELevel2Client_chk_eq:
  "EVELevel2Client_chk A x =
     (if is_instrument_eve x \<or> is_level_2 x \<or> is_time_2 x
      then insert (class_name x) A else A)"
  by (cases x) (auto split: pyval.splits)

lemma EVELevel3Client_chk_eq:
  "EVELevel3Client_chk A x =
     (if is_instrument_eve x \<or> is_level_3 x then insert (class_name x) A else A)"
  by (cases x) (auto split: pyval.splits)

lemma EVELevel3MergedClient_chk_eq:
  "EVELevel3MergedClient_chk A x =
     (if is_instrument_eve x \<or> is_level_3m x then insert (class_name x) A else A)"
  by (cases x) (auto split: pyval.splits)

lemma EVEClient_chk_eq:
  "EVEClient_chk n x = (if is_instrument_eve x \<or> is_level_0 x then n + 1 else n)"
  by (cases x) auto

subsection \<open>The predicates, by the terms of the query\<close>

lemma EVELevel2BClient_iff:
  "EVELevel2BClient_can_handle_query q \<longleftrightarrow>
     (\<exists>x\<in>set q. is_instrument_eve x) \<and> (\<exists>x\<in>set q. is_level_2b x) \<and>
     (\<exists>x\<in>set q. is_time_2b x)"
  unfolding EVELevel2BClient_can_handle_query_def
  by (simp only: kind_fold [of EVELevel2BClient_chk, OF EVELevel2BClient_chk_eq] Un_empty_left
        three_kinds [OF is_instrument_eve_name is_level_2b_name is_time_2b_name])

lemma EVELevel2Client_iff:
  "EVELevel2Client_can_handle_query q \<longleftrightarrow>
     (\<exists>x\<in>set q. is_instrument_eve x) \<and> (\<exists>x\<in>set q. is_level_2 x) \<and>
     (\<exists>x\<in>set q. is_time_2 x)"
  unfolding EVELevel2Client_can_handle_query_def
  by (simp only: kind_fold [of EVELevel2Client_chk, OF EVELevel2Client_chk_eq] Un_empty_left
        three_kinds [OF is_instrument_eve_name is_level_2_name is_time_2_name])

lemma EVELevel3Client_iff:
  "EVELevel3Client_can_handle_query q \<longleftrightarrow>
     (\<exists>x\<in>set q. is_instrument_eve x) \<and> (\<exists>x\<in>set q. is_level_3 x)"
  unfolding EVELevel3Client_can_handle_query_def
  by (simp only: kind_fold [of EVELevel3Client_chk, OF EVELevel3Client_chk_eq] Un_empty_left
        two_kinds [OF is_instrument_eve_name is_level_3_name])

lemma EVELevel3MergedClient_iff:
  "EVELevel3MergedClient_can_handle_query q \<longleftrightarrow>
     (\<exists>x\<in>set q. is_instrument_eve x) \<and> (\<exists>x\<in>set q. is_level_3m x)"
  unfolding EVELevel3MergedClient_can_handle_query_def
  by (simp only: kind_fold [of EVELevel3MergedClient_chk, OF EVELevel3MergedClient_chk_eq]
        Un_empty_left two_kinds [OF is_instrument_eve_name is_level_3m_name])

lemma EVEClient_fold:
  "foldl EVEClient_chk n q = n + length (filter (\<lambda>x. is_instrument_eve x \<or> is_level_0 x) q)"
proof (induction q arbitrary: n)
  case Nil
  show ?case by simp
next
  case (Cons x q)
  have "foldl EVEClient_chk n (x # q) =
          EVEClient_chk n x + length (filter (\<lambda>x. is_instrument_eve x \<or> is_level_0 x) q)"
    using Cons.IH [of "EVEClient_chk n x"] by (simp only: foldl_Cons)
  also have "\<dots> = n + length (filter (\<lambda>x. is_instrument_eve x \<or> is_level_0 x) (x # q))"
    by (simp add: EVEClient_chk_eq del: EVEClient_chk.simps)
  finally show ?case .
qed

lemma EVEClient_iff:
  "EVEClient_can_handle_query q \<longleftrightarrow>
     length (filter (\<lambda>x. is_instrument_eve x \<or> is_level_0 x) q) = 2"
  by (simp add: EVEClient_can_handle_query_def EVEClient_fold)

subsection \<open>Evaluation at concrete inputs\<close>

lemmas dt_eval = dt_le_def dt_lt_def dt_key_def mk_date_def mk_datetime_def

lemmas lower_eval = lower_def lower_char_def char_of_eq_iff

subsection \<open>The requirements, by constructor\<close>

lemma ex_instrument_eve:
  "(\<exists>x\<in>set q. is_instrument_eve x) \<longleftrightarrow> (\<exists>v. Instrument v \<in> set q \<and> lower v = ''eve'')"
proof
  assume "\<exists>x\<in>set q. is_instrument_eve x"
  then obtain x where x: "x \<in> set q" "is_instrument_eve x" by blast
  then show "\<exists>v. Instrument v \<in> set q \<and> lower v = ''eve''"
    by (cases x rule: query_term.exhaust) auto
next
  assume "\<exists>v. Instrument v \<in> set q \<and> lower v = ''eve''"
  then obtain v where "Instrument v \<in> set q" "is_instrument_eve (Instrument v)" by auto
  then show "\<exists>x\<in>set q. is_instrument_eve x" by blast
qed

lemma ex_level_2b:
  "(\<exists>x\<in>set q. is_level_2b x) \<longleftrightarrow> (\<exists>s. Level (StrV s) \<in> set q \<and> lower s = ''2b'')"
proof
  assume "\<exists>x\<in>set q. is_level_2b x"
  then obtain x where x: "x \<in> set q" "is_level_2b x" by blast
  then show "\<exists>s. Level (StrV s) \<in> set q \<and> lower s = ''2b''"
    by (cases x rule: is_level_2b.cases) auto
next
  assume "\<exists>s. Level (StrV s) \<in> set q \<and> lower s = ''2b''"
  then obtain s where "Level (StrV s) \<in> set q" "is_level_2b (Level (StrV s))" by auto
  then show "\<exists>x\<in>set q. is_level_2b x" by blast
qed

lemma ex_time_2b:
  "(\<exists>x\<in>set q. is_time_2b x) \<longleftrightarrow>
     (\<exists>s e. Time s e \<in> set q \<and> dt_le (mk_date 2018 4 20) e)"
proof
  assume "\<exists>x\<in>set q. is_time_2b x"
  then obtain x where x: "x \<in> set q" "is_time_2b x" by blast
  then show "\<exists>s e. Time s e \<in> set q \<and> dt_le (mk_date 2018 4 20) e"
    by (cases x rule: query_term.exhaust) auto
next
  assume "\<exists>s e. Time s e \<in> set q \<and> dt_le (mk_date 2018 4 20) e"
  then obtain s e where "Time s e \<in> set q" "is_time_2b (Time s e)" by auto
  then show "\<exists>x\<in>set q. is_time_2b x" by blast
qed

lemma ex_time_2:
  "(\<exists>x\<in>set q. is_time_2 x) \<longleftrightarrow>
     (\<exists>s e. Time s e \<in> set q \<and> dt_lt s (mk_date 2018 4 28))"
proof
  assume "\<exists>x\<in>set q. is_time_2 x"
  then obtain x where x: "x \<in> set q" "is_time_2 x" by blast
  then show "\<exists>s e. Time s e \<in> set q \<and> dt_lt s (mk_date 2018 4 28)"
    by (cases x rule: query_term.exhaust) auto
next
  assume "\<exists>s e. Time s e \<in> set q \<and> dt_lt s (mk_date 2018 4 28)"
  then obtain s e where "Time s e \<in> set q" "is_time_2 (Time s e)" by auto
  then show "\<exists>x\<in>set q. is_time_2 x" by blast
qed

subsection \<open>Order of timestamps and the rounded start\<close>

lemma dt_le_refl: "dt_le t t"
  by (simp add: dt_le_def)

lemma dt_le_trans: "dt_le a b \<Longrightarrow> dt_le b c \<Longrightarrow> dt_le a c"
  unfolding dt_le_def by (rule order_trans)

lemma dt_lt_le_trans: "dt_le a b \<Longrightarrow> dt_lt b c \<Longrightarrow> dt_lt a c"
  unfolding dt_le_def dt_lt_def by (rule le_less_trans)

lemma parse_format_Ymd_le: "dt_le (parse_format_Ymd t) t"
  by (simp add: parse_format_Ymd_def dt_eval)

lemma parse_format_Ymd_H00_le: "dt_le (parse_format_Ymd_H00 t) t"
  by (simp add: parse_format_Ymd_H00_def dt_eval)

lemma daily_start_le: "dt_le (tr_start (daily_timerange r)) (tr_start r)"
  by (simp add: daily_timerange_def TimeRange_def parse_format_Ymd_le dt_le_refl)

lemma hourly_start_le: "dt_le (tr_start (hourly_timerange r)) (tr_start r)"
  by (simp add: hourly_timerange_def TimeRange_def parse_format_Ymd_H00_le dt_le_refl)

lemma daily_start:
  "tr_start (daily_timerange r) = mk_date (year (tr_start r)) (month (tr_start r)) (day (tr_start r))"
  by (cases r; cases "tr_start r")
     (auto simp: daily_timerange_def TimeRange_def parse_format_Ymd_def mk_date_def mk_datetime_def
        time_of_def mk_time_def)

lemma hourly_start:
  "tr_start (hourly_timerange r) =
     mk_datetime (year (tr_start r)) (month (tr_start r)) (day (tr_start r)) (hour (tr_start r)) 0"
  by (cases r; cases "tr_start r")
     (auto simp: hourly_timerange_def TimeRange_def parse_format_Ymd_H00_def mk_datetime_def
        time_of_def mk_time_def)

subsection \<open>A filter with one element\<close>

lemma filter_one_ex: "length (filter P q) = 1 \<Longrightarrow> \<exists>x\<in>set q. P x"
proof -
  assume "length (filter P q) = 1"
  then have "filter P q \<noteq> []" by auto
  then show ?thesis by (simp add: filter_empty_conv)
qed


subsection \<open>The text a match carries\<close>

lemma re_match_I_newline:
  "re_match_I eve_l2b_pattern (''eve_l2b'' @ [CHR 0x0A]) = RetMatch ''eve_l2b'' \<and>
   re_match_I eve_l2b_pattern (''EVE L2'' @ [CHR 0x0A]) = RetMatch ''EVE L2'' \<and>
   re_match_I eve_l2b_pattern (''eve_l2b'' @ [CHR 0x0A, CHR 0x0A]) = RetNone \<and>
   re_match_I eve_l2b_pattern ''eve_l2bb'' = RetNone"
  by (simp add: re_match_I_def eve_l2b_pattern_def at_dollar_def lower_char_def char_of_eq_iff)

section \<open>The claims\<close>

text \<open>
  C1. The level 2B predicate returns true exactly when the query holds an \<open>Instrument\<close>
  term whose value is \<open>eve\<close> in any letter case, a \<open>Level\<close> term whose value is a string
  equal to \<open>2b\<close> in any letter case, and a \<open>Time\<close> term whose end is 2018-04-20 or later.
  The query of \<open>Instrument("eve")\<close>, \<open>Level("2b")\<close> and \<open>Time\<close> from 2018-04-20 to
  2018-04-20 is accepted; with a second \<open>Instrument("eve")\<close> in place of the \<open>Level\<close>
  term it is refused.
\<close>

theorem level2b_can_handle_query_iff:
  "(EVELevel2BClient_can_handle_query q \<longleftrightarrow>
      (\<exists>v. Instrument v \<in> set q \<and> lower v = ''eve'') \<and>
      (\<exists>s. Level (StrV s) \<in> set q \<and> lower s = ''2b'') \<and>
      (\<exists>s e. Time s e \<in> set q \<and> dt_le (mk_date 2018 4 20) e)) \<and>
   EVELevel2BClient_can_handle_query
     [Instrument ''eve'', Level (StrV ''2b''), Time (mk_date 2018 4 20) (mk_date 2018 4 20)] \<and>
   \<not> EVELevel2BClient_can_handle_query
     [Instrument ''eve'', Instrument ''eve'', Time (mk_date 2018 4 20) (mk_date 2018 4 20)]"
proof (intro conjI)
  show "EVELevel2BClient_can_handle_query q \<longleftrightarrow>
      (\<exists>v. Instrument v \<in> set q \<and> lower v = ''eve'') \<and>
      (\<exists>s. Level (StrV s) \<in> set q \<and> lower s = ''2b'') \<and>
      (\<exists>s e. Time s e \<in> set q \<and> dt_le (mk_date 2018 4 20) e)"
    by (simp only: EVELevel2BClient_iff ex_instrument_eve ex_level_2b ex_time_2b)
  show "EVELevel2BClient_can_handle_query
     [Instrument ''eve'', Level (StrV ''2b''), Time (mk_date 2018 4 20) (mk_date 2018 4 20)]"
    by (simp add: EVELevel2BClient_iff dt_eval lower_eval)
  show "\<not> EVELevel2BClient_can_handle_query
     [Instrument ''eve'', Instrument ''eve'', Time (mk_date 2018 4 20) (mk_date 2018 4 20)]"
    by (simp add: EVELevel2BClient_iff)
qed

theorem level2b_can_handle_query_iff_witness:
  "EVELevel2BClient_can_handle_query
     [Time (mk_date 2018 4 20) (mk_date 2018 4 20), Instrument ''EVE'', Level (StrV ''2B'')]"
  using level2b_can_handle_query_iff
    [of "[Time (mk_date 2018 4 20) (mk_date 2018 4 20), Instrument ''EVE'', Level (StrV ''2B'')]"]
  by (simp add: dt_eval lower_eval)

text \<open>
  C3. The level 0 predicate returns true exactly when its running count equals 2, the
  count being the number of terms that are an \<open>Instrument\<close> with value \<open>eve\<close> (in any
  letter case) or a \<open>Level\<close> with value 0. Two \<open>Instrument("eve")\<close> terms and no \<open>Level\<close>
  term are therefore accepted, which none of the predicates that keep a set of class
  names does.
\<close>

text \<open>
  C2, as stated, fails: a \<open>Time\<close> term from 2018-04-01 to 2018-05-01 ends after
  2018-04-28, and the query is accepted, since the term starts before that day.
\<close>

theorem level2_counterexample:
  "dt_le (mk_date 2018 4 1) (mk_date 2018 5 1) \<and>
   dt_lt (mk_date 2018 4 28) (mk_date 2018 5 1) \<and>
   EVELevel2Client_can_handle_query
     [Instrument ''eve'', Level (IntV 2), Time (mk_date 2018 4 1) (mk_date 2018 5 1)]"
  by (simp add: EVELevel2Client_iff dt_eval lower_eval)

text \<open>
  C2, as the code has it. The level 2 predicate takes a \<open>Level\<close> term of the integer 2
  and one of the string \<open>2\<close> alike: with an \<open>Instrument\<close> term of value \<open>eve\<close> and a
  \<open>Time\<close> term that starts before 2018-04-28 in the query, either makes it true. The
  time test reads the start of the \<open>Time\<close> term, not its end: a query none of whose
  \<open>Time\<close> terms starts before 2018-04-28 is refused.
\<close>

theorem level2_can_handle_query_start:
  "(is_level_2 (Level (IntV 2)) \<and> is_level_2 (Level (StrV ''2''))) \<and>
   (Instrument v \<in> set q \<and> lower v = ''eve'' \<and> Time s e \<in> set q \<and>
      dt_lt s (mk_date 2018 4 28) \<longrightarrow>
      EVELevel2Client_can_handle_query (Level (IntV 2) # q) \<and>
      EVELevel2Client_can_handle_query (Level (StrV ''2'') # q)) \<and>
   ((\<forall>s e. Time s e \<in> set q \<longrightarrow> \<not> dt_lt s (mk_date 2018 4 28)) \<longrightarrow>
      \<not> EVELevel2Client_can_handle_query q)"
proof (intro conjI impI)
  show "is_level_2 (Level (IntV 2))" "is_level_2 (Level (StrV ''2''))" by simp_all
next
  assume a: "Instrument v \<in> set q \<and> lower v = ''eve'' \<and> Time s e \<in> set q \<and>
      dt_lt s (mk_date 2018 4 28)"
  then have i: "\<exists>x\<in>set q. is_instrument_eve x" by (auto simp: ex_instrument_eve)
  from a have t: "\<exists>x\<in>set q. is_time_2 x" by (auto simp: ex_time_2)
  show "EVELevel2Client_can_handle_query (Level (IntV 2) # q)"
    using i t by (simp add: EVELevel2Client_iff)
  show "EVELevel2Client_can_handle_query (Level (StrV ''2'') # q)"
    using i t by (simp add: EVELevel2Client_iff)
next
  assume "\<forall>s e. Time s e \<in> set q \<longrightarrow> \<not> dt_lt s (mk_date 2018 4 28)"
  then have "\<not> (\<exists>x\<in>set q. is_time_2 x)" unfolding ex_time_2 by blast
  then show "\<not> EVELevel2Client_can_handle_query q" by (simp add: EVELevel2Client_iff)
qed

theorem level2_can_handle_query_start_witness:
  "EVELevel2Client_can_handle_query
     [Level (IntV 2), Instrument ''eve'', Time (mk_datetime 2018 1 1 14 0) (mk_datetime 2018 1 1 14 0)] \<and>
   EVELevel2Client_can_handle_query
     [Level (StrV ''2''), Instrument ''eve'', Time (mk_datetime 2018 1 1 14 0) (mk_datetime 2018 1 1 14 0)] \<and>
   \<not> EVELevel2Client_can_handle_query
     [Time (mk_datetime 2018 5 1 14 0) (mk_datetime 2018 5 1 14 0), Instrument ''eve'', Level (IntV 2)]"
  using level2_can_handle_query_start
    [of "''eve''" "[Instrument ''eve'', Time (mk_datetime 2018 1 1 14 0) (mk_datetime 2018 1 1 14 0)]"
        "mk_datetime 2018 1 1 14 0" "mk_datetime 2018 1 1 14 0"]
    level2_can_handle_query_start
    [of _ "[Time (mk_datetime 2018 5 1 14 0) (mk_datetime 2018 5 1 14 0), Instrument ''eve'', Level (IntV 2)]"]
  by (simp add: dt_eval lower_eval)

text \<open>
  C3. The level 0 predicate returns true exactly when its running count equals 2, the
  count being the number of terms that are an \<open>Instrument\<close> with value \<open>eve\<close> (in any
  letter case) or a \<open>Level\<close> with value 0. Two \<open>Instrument("eve")\<close> terms and no \<open>Level\<close>
  term are therefore accepted, which none of the predicates that keep a set of class
  names does.
\<close>

theorem level0_running_count:
  "(EVEClient_can_handle_query q \<longleftrightarrow> foldl EVEClient_chk 0 q = 2) \<and>
   foldl EVEClient_chk 0 q = length (filter (\<lambda>x. is_instrument_eve x \<or> is_level_0 x) q) \<and>
   EVEClient_can_handle_query [Instrument ''eve'', Instrument ''eve''] \<and>
   \<not> EVELevel2BClient_can_handle_query [Instrument ''eve'', Instrument ''eve''] \<and>
   \<not> EVELevel2Client_can_handle_query [Instrument ''eve'', Instrument ''eve''] \<and>
   \<not> EVELevel3Client_can_handle_query [Instrument ''eve'', Instrument ''eve''] \<and>
   \<not> EVELevel3MergedClient_can_handle_query [Instrument ''eve'', Instrument ''eve'']"
  by (simp add: EVEClient_can_handle_query_def EVEClient_fold EVELevel2BClient_iff
        EVELevel2Client_iff EVELevel3Client_iff EVELevel3MergedClient_iff lower_eval)

theorem level0_running_count_witness:
  "EVEClient_can_handle_query
     [Time (mk_date 2012 8 9) (mk_date 2012 8 10), Instrument ''eve'', Level (IntV 0)] \<and>
   \<not> EVEClient_can_handle_query
     [Time (mk_date 2012 8 9) (mk_date 2012 8 10), Instrument ''eve'', Source ''sdo'']"
  using level0_running_count
    [of "[Time (mk_date 2012 8 9) (mk_date 2012 8 10), Instrument ''eve'', Level (IntV 0)]"]
    level0_running_count
    [of "[Time (mk_date 2012 8 9) (mk_date 2012 8 10), Instrument ''eve'', Source ''sdo'']"]
  by (simp add: lower_eval)

text \<open>
  C4, as stated, fails: the level 3 and the merged level 3 predicates accept a query
  that holds a \<open>Time\<close> term besides the required \<open>Instrument\<close> and \<open>Level\<close> terms, a
  collection that does not consist of exactly the required terms.
\<close>

theorem exactly_required_counterexample:
  "EVELevel3Client_can_handle_query
     [Time (mk_date 2018 4 20) (mk_date 2018 4 20), Instrument ''eve'', Level (StrV ''3'')] \<and>
   \<not> exactly_required [is_instrument_eve, is_level_3]
     [Time (mk_date 2018 4 20) (mk_date 2018 4 20), Instrument ''eve'', Level (StrV ''3'')] \<and>
   EVELevel3MergedClient_can_handle_query
     [Time (mk_date 2018 4 20) (mk_date 2018 4 20), Instrument ''eve'', Level (StrV ''3m'')] \<and>
   \<not> exactly_required [is_instrument_eve, is_level_3m]
     [Time (mk_date 2018 4 20) (mk_date 2018 4 20), Instrument ''eve'', Level (StrV ''3m'')]"
  by (simp add: EVELevel3Client_iff EVELevel3MergedClient_iff exactly_required_def lower_eval)

text \<open>
  C4, as the code has it. Each predicate is decided by the terms that meet its
  conditions, whatever else the query holds. Level 0 is true exactly when two terms
  meet one of its two conditions; each of the other four is true exactly when every one
  of its requirements is met by at least one term. Terms of other classes, terms that
  miss the conditions and repeated terms do not count against a query: the required
  terms of level 3 or merged level 3, followed by any further terms, are accepted.
\<close>

theorem can_handle_query_required_terms:
  "(EVEClient_can_handle_query q \<longleftrightarrow>
      length (filter (\<lambda>x. is_instrument_eve x \<or> is_level_0 x) q) = 2) \<and>
   (EVELevel2BClient_can_handle_query q \<longleftrightarrow>
      (\<exists>x\<in>set q. is_instrument_eve x) \<and> (\<exists>x\<in>set q. is_level_2b x) \<and>
      (\<exists>x\<in>set q. is_time_2b x)) \<and>
   (EVELevel2Client_can_handle_query q \<longleftrightarrow>
      (\<exists>x\<in>set q. is_instrument_eve x) \<and> (\<exists>x\<in>set q. is_level_2 x) \<and>
      (\<exists>x\<in>set q. is_time_2 x)) \<and>
   (EVELevel3Client_can_handle_query q \<longleftrightarrow>
      (\<exists>x\<in>set q. is_instrument_eve x) \<and> (\<exists>x\<in>set q. is_level_3 x)) \<and>
   (EVELevel3MergedClient_can_handle_query q \<longleftrightarrow>
      (\<exists>x\<in>set q. is_instrument_eve x) \<and> (\<exists>x\<in>set q. is_level_3m x)) \<and>
   (exactly_required [is_instrument_eve, is_level_3] q \<longrightarrow>
      EVELevel3Client_can_handle_query (q @ extra)) \<and>
   (exactly_required [is_instrument_eve, is_level_3m] q \<longrightarrow>
      EVELevel3MergedClient_can_handle_query (q @ extra))"
proof (intro conjI impI)
  show "EVEClient_can_handle_query q \<longleftrightarrow>
      length (filter (\<lambda>x. is_instrument_eve x \<or> is_level_0 x) q) = 2"
    by (rule EVEClient_iff)
  show "EVELevel2BClient_can_handle_query q \<longleftrightarrow>
      (\<exists>x\<in>set q. is_instrument_eve x) \<and> (\<exists>x\<in>set q. is_level_2b x) \<and>
      (\<exists>x\<in>set q. is_time_2b x)"
    by (rule EVELevel2BClient_iff)
  show "EVELevel2Client_can_handle_query q \<longleftrightarrow>
      (\<exists>x\<in>set q. is_instrument_eve x) \<and> (\<exists>x\<in>set q. is_level_2 x) \<and>
      (\<exists>x\<in>set q. is_time_2 x)"
    by (rule EVELevel2Client_iff)
  show "EVELevel3Client_can_handle_query q \<longleftrightarrow>
      (\<exists>x\<in>set q. is_instrument_eve x) \<and> (\<exists>x\<in>set q. is_level_3 x)"
    by (rule EVELevel3Client_iff)
  show "EVELevel3MergedClient_can_handle_query q \<longleftrightarrow>
      (\<exists>x\<in>set q. is_instrument_eve x) \<and> (\<exists>x\<in>set q. is_level_3m x)"
    by (rule EVELevel3MergedClient_iff)
next
  assume "exactly_required [is_instrument_eve, is_level_3] q"
  then have n: "length (filter is_instrument_eve q) = 1" "length (filter is_level_3 q) = 1"
    by (simp_all add: exactly_required_def)
  show "EVELevel3Client_can_handle_query (q @ extra)"
    unfolding EVELevel3Client_iff
    using filter_one_ex [OF n(1)] filter_one_ex [OF n(2)] by auto
next
  assume "exactly_required [is_instrument_eve, is_level_3m] q"
  then have n: "length (filter is_instrument_eve q) = 1" "length (filter is_level_3m q) = 1"
    by (simp_all add: exactly_required_def)
  show "EVELevel3MergedClient_can_handle_query (q @ extra)"
    unfolding EVELevel3MergedClient_iff
    using filter_one_ex [OF n(1)] filter_one_ex [OF n(2)] by auto
qed

theorem can_handle_query_required_terms_witness:
  "EVELevel3Client_can_handle_query
     ([Instrument ''eve'', Level (IntV 3)] @ [Time (mk_date 2018 4 20) (mk_date 2018 4 20)]) \<and>
   EVELevel3MergedClient_can_handle_query
     ([Instrument ''eve'', Level (StrV ''3Merged'')] @ [Source ''sdo''])"
  using can_handle_query_required_terms
    [of "[Instrument ''eve'', Level (IntV 3)]" "[Time (mk_date 2018 4 20) (mk_date 2018 4 20)]"]
    can_handle_query_required_terms
    [of "[Instrument ''eve'', Level (StrV ''3Merged'')]" "[Source ''sdo'']"]
  by (simp add: exactly_required_def lower_eval)

text \<open>
  C5. For every window that starts on 2018-04-20 or later and ends before the end of
  2018-04-27 (start not after end), a query that holds an \<open>Instrument\<close> term of value
  \<open>eve\<close> and the \<open>Time\<close> term of that window is accepted by the level 2 predicate when
  its \<open>Level\<close> term is 2 or \<open>"2"\<close>, and by the level 2B predicate when it is \<open>"2b"\<close>,
  the rest of the query being the same.
\<close>

theorem level2_level2b_overlap:
  assumes "dt_le (mk_date 2018 4 20) s" and "dt_le s e" and "dt_lt e (mk_date 2018 4 28)"
    and "Instrument v \<in> set (pre @ post)" and "lower v = ''eve''"
    and "Time s e \<in> set (pre @ post)"
  shows "EVELevel2Client_can_handle_query (pre @ Level (IntV 2) # post) \<and>
         EVELevel2Client_can_handle_query (pre @ Level (StrV ''2'') # post) \<and>
         EVELevel2BClient_can_handle_query (pre @ Level (StrV ''2b'') # post)"
proof -
  have i: "is_instrument_eve (Instrument v)" using assms(5) by simp
  have t2: "is_time_2 (Time s e)"
    using dt_lt_le_trans [OF assms(2) assms(3)] by simp
  have t2b: "is_time_2b (Time s e)"
    using dt_le_trans [OF assms(1) assms(2)] by simp
  have l2b: "is_level_2b (Level (StrV ''2b''))" by (simp add: lower_eval)
  have a: "\<exists>x\<in>set (pre @ y # post). is_instrument_eve x" for y
    using assms(4) i by (metis Un_iff insert_iff list.set(2) set_append)
  have b: "\<exists>x\<in>set (pre @ y # post). is_time_2 x" for y
    using assms(6) t2 by (metis Un_iff insert_iff list.set(2) set_append)
  have c: "\<exists>x\<in>set (pre @ y # post). is_time_2b x" for y
    using assms(6) t2b by (metis Un_iff insert_iff list.set(2) set_append)
  have d: "\<exists>x\<in>set (pre @ Level (IntV 2) # post). is_level_2 x" by auto
  have e: "\<exists>x\<in>set (pre @ Level (StrV ''2'') # post). is_level_2 x" by auto
  have f: "\<exists>x\<in>set (pre @ Level (StrV ''2b'') # post). is_level_2b x" using l2b
    by (metis in_set_conv_decomp)
  show ?thesis
    unfolding EVELevel2Client_iff EVELevel2BClient_iff using a b c d e f by blast
qed

theorem level2_level2b_overlap_witness:
  "EVELevel2Client_can_handle_query
     ([Instrument ''eve''] @ Level (IntV 2) # [Time (mk_date 2018 4 20) (mk_datetime 2018 4 27 23 59)]) \<and>
   EVELevel2Client_can_handle_query
     ([Instrument ''eve''] @ Level (StrV ''2'') # [Time (mk_date 2018 4 20) (mk_datetime 2018 4 27 23 59)]) \<and>
   EVELevel2BClient_can_handle_query
     ([Instrument ''eve''] @ Level (StrV ''2b'') # [Time (mk_date 2018 4 20) (mk_datetime 2018 4 27 23 59)])"
  by (rule level2_level2b_overlap [of "mk_date 2018 4 20" "mk_datetime 2018 4 27 23 59" "''eve''"])
     (simp_all add: dt_eval lower_eval)

text \<open>
  C6. For every valid time range, the interval that \<open>_get_url_for_timerange\<close> hands to
  the scraper keeps the end and has a start that is not after the original one: the
  daily clients (level 0, 2B and 3) use midnight of the start's calendar day, the
  hourly level 2 client the top of the start's hour. The interval is again valid.
\<close>

theorem normalized_timerange:
  assumes "valid_timerange r"
  shows "tr_end (daily_timerange r) = tr_end r \<and>
         tr_end (hourly_timerange r) = tr_end r \<and>
         dt_le (tr_start (daily_timerange r)) (tr_start r) \<and>
         dt_le (tr_start (hourly_timerange r)) (tr_start r) \<and>
         tr_start (daily_timerange r) =
           mk_date (year (tr_start r)) (month (tr_start r)) (day (tr_start r)) \<and>
         tr_start (hourly_timerange r) =
           mk_datetime (year (tr_start r)) (month (tr_start r)) (day (tr_start r))
             (hour (tr_start r)) 0 \<and>
         valid_timerange (daily_timerange r) \<and>
         valid_timerange (hourly_timerange r) \<and>
         EVEClient_get_url_for_timerange listing r =
           Scraper_filelist listing (Scraper BASEURL [] 0 0) (daily_timerange r) \<and>
         EVELevel2BClient_get_url_for_timerange listing scr r =
           Scraper_filelist listing scr (daily_timerange r) \<and>
         EVELevel3Client_get_url_for_timerange listing scr r =
           Scraper_filelist listing scr (daily_timerange r) \<and>
         EVELevel2Client_get_url_for_timerange listing scr r =
           Scraper_filelist listing scr (hourly_timerange r)"
proof (intro conjI)
  show "tr_end (daily_timerange r) = tr_end r"
    by (simp add: daily_timerange_def TimeRange_def)
  show "tr_end (hourly_timerange r) = tr_end r"
    by (simp add: hourly_timerange_def TimeRange_def)
  show "dt_le (tr_start (daily_timerange r)) (tr_start r)" by (rule daily_start_le)
  show "dt_le (tr_start (hourly_timerange r)) (tr_start r)" by (rule hourly_start_le)
  show "tr_start (daily_timerange r) =
           mk_date (year (tr_start r)) (month (tr_start r)) (day (tr_start r))"
    by (rule daily_start)
  show "tr_start (hourly_timerange r) =
           mk_datetime (year (tr_start r)) (month (tr_start r)) (day (tr_start r))
             (hour (tr_start r)) 0"
    by (rule hourly_start)
  show "valid_timerange (daily_timerange r)"
    using assms daily_start_le [of r]
    by (auto simp: valid_timerange_def daily_timerange_def TimeRange_def intro: dt_le_trans)
  show "valid_timerange (hourly_timerange r)"
    using assms hourly_start_le [of r]
    by (auto simp: valid_timerange_def hourly_timerange_def TimeRange_def intro: dt_le_trans)
qed (simp_all add: EVEClient_get_url_for_timerange_def EVELevel2BClient_get_url_for_timerange_def
       EVELevel3Client_get_url_for_timerange_def EVELevel2Client_get_url_for_timerange_def)

theorem normalized_timerange_witness:
  "daily_timerange (TimeRange (mk_datetime 2018 1 1 14 30) (mk_datetime 2018 1 1 16 0)) =
     TimeRange (mk_date 2018 1 1) (mk_datetime 2018 1 1 16 0) \<and>
   hourly_timerange (TimeRange (mk_datetime 2018 1 1 14 30) (mk_datetime 2018 1 1 16 0)) =
     TimeRange (mk_datetime 2018 1 1 14 0) (mk_datetime 2018 1 1 16 0)"
proof -
  let ?r = "TimeRange (mk_datetime 2018 1 1 14 30) (mk_datetime 2018 1 1 16 0)"
  have v: "valid_timerange ?r"
    by (simp add: valid_timerange_def TimeRange_def dt_eval)
  have e: "a = b" if "tr_start a = tr_start b" "tr_end a = tr_end b" for a b :: timerange
    using that by simp
  show ?thesis
    using normalized_timerange [OF v]
    by (auto intro!: e simp: TimeRange_def mk_date_def mk_datetime_def)
qed

text \<open>
  C7. The merged level 3 client, whatever range is requested and whatever scraper it
  holds, asks the scraper for the interval from 1900-01-01 to today, and for nothing
  else: a dated pattern has its partitions listed for exactly that interval, and two
  requested ranges give the same URLs. With the scraper that construction builds, and
  today not before 1900-01-01, the scraper as the specification describes it lists
  exactly one URL, that of the merged file. \<open>_get_time_for_url\<close> gives, for every URL of
  its input and whatever the URL is, the range from 1900-01-01 to today.
\<close>

theorem merged_full_history:
  "EVELevel3MergedClient_get_url_for_timerange listing scr (y, m, d) r =
     Scraper_filelist listing scr (TimeRange (mk_date 1900 1 1) (mk_date y m d)) \<and>
   (CHR ''%'' \<in> set (scr_pattern scr) \<longrightarrow>
      EVELevel3MergedClient_get_url_for_timerange listing scr (y, m, d) r =
        listing (scr_pattern scr) (TimeRange (mk_date 1900 1 1) (mk_date y m d))) \<and>
   EVELevel3MergedClient_get_url_for_timerange listing scr (y, m, d) r =
     EVELevel3MergedClient_get_url_for_timerange listing scr (y, m, d) r' \<and>
   (dt_le (mk_date 1900 1 1) (mk_date y m d) \<and>
    BaseEVEClient_init EVELevel3MergedClient = Inr scr \<longrightarrow>
      EVELevel3MergedClient_get_url_for_timerange listing scr (y, m, d) r =
        [''http://lasp.colorado.edu/eve/data_access/evewebdataproducts/merged/latest_EVE_L3_merged.fit''] \<and>
      length (EVELevel3MergedClient_get_url_for_timerange listing scr (y, m, d) r) = 1) \<and>
   EVELevel3MergedClient_get_time_for_url (y, m, d) urls =
     map (\<lambda>url. TimeRange (mk_date 1900 1 1) (mk_date y m d)) urls \<and>
   length (EVELevel3MergedClient_get_time_for_url (y, m, d) urls) = length urls"
proof (intro conjI impI)
  show g: "EVELevel3MergedClient_get_url_for_timerange listing scr (y, m, d) r =
     Scraper_filelist listing scr (TimeRange (mk_date 1900 1 1) (mk_date y m d))" for r
    by (simp add: EVELevel3MergedClient_get_url_for_timerange_def full_timerange_def)
  show "EVELevel3MergedClient_get_url_for_timerange listing scr (y, m, d) r =
     EVELevel3MergedClient_get_url_for_timerange listing scr (y, m, d) r'"
    by (simp only: g)
  show t: "EVELevel3MergedClient_get_time_for_url (y, m, d) urls =
     map (\<lambda>url. TimeRange (mk_date 1900 1 1) (mk_date y m d)) urls"
    by (induction urls) (simp_all add: full_timerange_def)
  show "length (EVELevel3MergedClient_get_time_for_url (y, m, d) urls) = length urls"
    by (simp only: t length_map)
next
  assume "CHR ''%'' \<in> set (scr_pattern scr)"
  then show "EVELevel3MergedClient_get_url_for_timerange listing scr (y, m, d) r =
        listing (scr_pattern scr) (TimeRange (mk_date 1900 1 1) (mk_date y m d))"
    by (simp add: EVELevel3MergedClient_get_url_for_timerange_def full_timerange_def
          Scraper_filelist_def)
next
  assume a: "dt_le (mk_date 1900 1 1) (mk_date y m d) \<and>
    BaseEVEClient_init EVELevel3MergedClient = Inr scr"
  then have scr: "scr = Scraper
      ''http://lasp.colorado.edu/eve/data_access/evewebdataproducts/merged/latest_EVE_L3_merged.fit''
      ''S'' 6 2"
    by (simp add: BaseEVEClient_init_def GenericClient_init_def EVELevel3MergedClient_def
          BaseEVEClient_def)
  from a show u: "EVELevel3MergedClient_get_url_for_timerange listing scr (y, m, d) r =
        [''http://lasp.colorado.edu/eve/data_access/evewebdataproducts/merged/latest_EVE_L3_merged.fit'']"
    by (simp add: EVELevel3MergedClient_get_url_for_timerange_def Scraper_filelist_def scr
          Scraper_def full_timerange_def TimeRange_def sentinel_epoch_def dt_le_def)
  show "length (EVELevel3MergedClient_get_url_for_timerange listing scr (y, m, d) r) = 1"
    by (simp only: u) simp
qed

theorem merged_full_history_witness:
  "EVELevel3MergedClient_get_url_for_timerange (\<lambda>p r. [])
     (Scraper ''http://lasp.colorado.edu/eve/data_access/evewebdataproducts/merged/latest_EVE_L3_merged.fit'' ''S'' 6 2)
     (2018, 4, 20) (TimeRange (mk_date 2018 4 20) (mk_date 2018 4 20)) =
     [''http://lasp.colorado.edu/eve/data_access/evewebdataproducts/merged/latest_EVE_L3_merged.fit''] \<and>
   EVELevel3MergedClient_get_url_for_timerange
     (\<lambda>p r. if r = TimeRange (mk_date 1900 1 1) (mk_date 2018 4 20) then [p] else [])
     (Scraper ''level3/%Y'' ''S'' 6 2)
     (2018, 4, 20) (TimeRange (mk_date 2012 4 21) (mk_date 2012 4 21)) =
     [''level3/%Y''] \<and>
   EVELevel3MergedClient_get_time_for_url (2018, 4, 20) [''a'', ''b''] =
     [TimeRange (mk_date 1900 1 1) (mk_date 2018 4 20),
      TimeRange (mk_date 1900 1 1) (mk_date 2018 4 20)]"
proof -
  let ?scr = "Scraper ''http://lasp.colorado.edu/eve/data_access/evewebdataproducts/merged/latest_EVE_L3_merged.fit'' ''S'' 6 2"
  have a: "dt_le (mk_date 1900 1 1) (mk_date 2018 4 20)" by (simp add: dt_eval)
  have b: "BaseEVEClient_init EVELevel3MergedClient = Inr ?scr"
    by (simp add: BaseEVEClient_init_def GenericClient_init_def EVELevel3MergedClient_def
          BaseEVEClient_def)
  have c: "CHR ''%'' \<in> set (scr_pattern (Scraper ''level3/%Y'' ''S'' 6 2))"
    by (simp add: Scraper_def)
  note h1 = merged_full_history
    [of "\<lambda>p r. []" ?scr 2018 4 20 "TimeRange (mk_date 2018 4 20) (mk_date 2018 4 20)"
        "TimeRange (mk_date 2018 4 20) (mk_date 2018 4 20)" "[''a'', ''b'']"]
  note h2 = merged_full_history
    [of "\<lambda>p r. if r = TimeRange (mk_date 1900 1 1) (mk_date 2018 4 20) then [p] else []"
        "Scraper ''level3/%Y'' ''S'' 6 2" 2018 4 20
        "TimeRange (mk_date 2012 4 21) (mk_date 2012 4 21)"
        "TimeRange (mk_date 2012 4 21) (mk_date 2012 4 21)" "[]"]
  have 1: "EVELevel3MergedClient_get_url_for_timerange (\<lambda>p r. []) ?scr
     (2018, 4, 20) (TimeRange (mk_date 2018 4 20) (mk_date 2018 4 20)) =
     [''http://lasp.colorado.edu/eve/data_access/evewebdataproducts/merged/latest_EVE_L3_merged.fit'']"
    using h1 a b by blast
  have 2: "EVELevel3MergedClient_get_url_for_timerange
     (\<lambda>p r. if r = TimeRange (mk_date 1900 1 1) (mk_date 2018 4 20) then [p] else [])
     (Scraper ''level3/%Y'' ''S'' 6 2)
     (2018, 4, 20) (TimeRange (mk_date 2012 4 21) (mk_date 2012 4 21)) =
     (\<lambda>p r. if r = TimeRange (mk_date 1900 1 1) (mk_date 2018 4 20) then [p] else [])
       (scr_pattern (Scraper ''level3/%Y'' ''S'' 6 2))
       (TimeRange (mk_date 1900 1 1) (mk_date 2018 4 20))"
    using h2 c by blast
  have 3: "EVELevel3MergedClient_get_time_for_url (2018, 4, 20) [''a'', ''b''] =
     map (\<lambda>url. TimeRange (mk_date 1900 1 1) (mk_date 2018 4 20)) [''a'', ''b'']"
    using h1 by blast
  show ?thesis
    unfolding 1 2 3 by (simp add: Scraper_def)
qed

text \<open>
  C8. Constructing a client whose \<open>_PRODUCT_URL\<close> is still \<open>NotImplemented\<close>, as that of
  \<open>_BaseEVEClient\<close> itself, raises \<open>NotImplementedError\<close> in the constructor; each of the
  five concrete clients is constructed without error.
\<close>

theorem unbound_pattern_raises:
  "BaseEVEClient_init BaseEVEClient = Inl NotImplementedError \<and>
   (PRODUCT_URL cls = NotImplemented \<longrightarrow> BaseEVEClient_init cls = Inl NotImplementedError) \<and>
   (\<exists>scr. BaseEVEClient_init EVELevel2BClient = Inr scr) \<and>
   (\<exists>scr. BaseEVEClient_init EVELevel2Client = Inr scr) \<and>
   (\<exists>scr. BaseEVEClient_init EVELevel3Client = Inr scr) \<and>
   (\<exists>scr. BaseEVEClient_init EVELevel3MergedClient = Inr scr) \<and>
   EVEClient_init = Inr ()"
  by (simp add: BaseEVEClient_init_def GenericClient_init_def EVEClient_init_def
        BaseEVEClient_def EVELevel2BClient_def EVELevel2Client_def EVELevel3Client_def
        EVELevel3MergedClient_def)

theorem unbound_pattern_raises_witness:
  "BaseEVEClient_init (BaseEVEClient\<lparr>VERSION := 7\<rparr>) = Inl NotImplementedError"
  using unbound_pattern_raises [of "BaseEVEClient\<lparr>VERSION := 7\<rparr>"]
  by (simp add: BaseEVEClient_def)

text \<open>
  C9. The four predicates that keep a set of class names stay true when a term is
  appended to a query they accept. The level 0 predicate does not: \<open>Instrument("eve")\<close>
  and \<open>Level(0)\<close> are accepted, and with one more \<open>Instrument("eve")\<close> the count is 3 and
  the query is refused.
\<close>

theorem kind_set_monotone:
  "(EVELevel2BClient_can_handle_query q \<longrightarrow> EVELevel2BClient_can_handle_query (q @ [x])) \<and>
   (EVELevel2Client_can_handle_query q \<longrightarrow> EVELevel2Client_can_handle_query (q @ [x])) \<and>
   (EVELevel3Client_can_handle_query q \<longrightarrow> EVELevel3Client_can_handle_query (q @ [x])) \<and>
   (EVELevel3MergedClient_can_handle_query q \<longrightarrow>
      EVELevel3MergedClient_can_handle_query (q @ [x])) \<and>
   EVEClient_can_handle_query [Instrument ''eve'', Level (IntV 0)] \<and>
   foldl EVEClient_chk 0 ([Instrument ''eve'', Level (IntV 0)] @ [Instrument ''eve'']) = 3 \<and>
   \<not> EVEClient_can_handle_query ([Instrument ''eve'', Level (IntV 0)] @ [Instrument ''eve''])"
  by (auto simp: EVELevel2BClient_iff EVELevel2Client_iff EVELevel3Client_iff
        EVELevel3MergedClient_iff EVEClient_iff EVEClient_fold lower_eval)

theorem kind_set_monotone_witness:
  "EVELevel2BClient_can_handle_query
     ([Instrument ''eve'', Level (StrV ''2b''), Time (mk_date 2018 4 20) (mk_date 2018 4 20)] @
      [Instrument ''eve'']) \<and>
   EVELevel2Client_can_handle_query
     ([Instrument ''eve'', Level (IntV 2), Time (mk_date 2018 1 1) (mk_date 2018 1 1)] @
      [Level (IntV 7)]) \<and>
   EVELevel3Client_can_handle_query ([Instrument ''eve'', Level (IntV 3)] @ [Source ''sdo'']) \<and>
   EVELevel3MergedClient_can_handle_query
     ([Instrument ''eve'', Level (StrV ''3m'')] @ [Instrument ''aia''])"
  using kind_set_monotone
      [of "[Instrument ''eve'', Level (StrV ''2b''), Time (mk_date 2018 4 20) (mk_date 2018 4 20)]"
          "Instrument ''eve''"]
    kind_set_monotone
      [of "[Instrument ''eve'', Level (IntV 2), Time (mk_date 2018 1 1) (mk_date 2018 1 1)]"
          "Level (IntV 7)"]
    kind_set_monotone [of "[Instrument ''eve'', Level (IntV 3)]" "Source ''sdo''"]
    kind_set_monotone [of "[Instrument ''eve'', Level (StrV ''3m'')]" "Instrument ''aia''"]
  by (simp add: EVELevel2BClient_iff EVELevel2Client_iff EVELevel3Client_iff
        EVELevel3MergedClient_iff dt_eval lower_eval)

text \<open>
  C10. When the keyword arguments have no \<open>source\<close> entry, or an empty string for it,
  \<open>is_datasource_for\<close> of both time series classes returns \<open>None\<close>, which is not \<open>False\<close>;
  a boolean comes back only for a non-empty source string. For such a string the scan
  class matches the pattern \<open>eve[_ ]l2b?\<close> without regard to case, so \<open>eve_l2\<close> and
  \<open>eve l2b\<close> match as well as \<open>eve_l2b\<close>.
\<close>

theorem is_datasource_for_none:
  "(kwargs ''source'' = None \<or> kwargs ''source'' = Some (StrV []) \<longrightarrow>
      EVESpWxTimeSeries_is_datasource_for kwargs = Inr RetNone \<and>
      EVEScanTimeSeries_is_datasource_for kwargs = Inr RetNone) \<and>
   (EVESpWxTimeSeries_is_datasource_for kwargs = Inr (RetBool b) \<or>
    EVEScanTimeSeries_is_datasource_for kwargs = Inr (RetBool b) \<longrightarrow>
      (\<exists>s. kwargs ''source'' = Some (StrV s) \<and> s \<noteq> [])) \<and>
   RetNone \<noteq> RetBool False \<and>
   EVEScanTimeSeries_is_datasource_for [''source'' \<mapsto> StrV ''eve_l2''] =
     Inr (RetMatch ''eve_l2'') \<and>
   EVEScanTimeSeries_is_datasource_for [''source'' \<mapsto> StrV ''eve l2b''] =
     Inr (RetMatch ''eve l2b'') \<and>
   EVEScanTimeSeries_is_datasource_for [''source'' \<mapsto> StrV ''EVE_L2B''] =
     Inr (RetMatch ''EVE_L2B'') \<and>
   EVEScanTimeSeries_is_datasource_for [''source'' \<mapsto> StrV ''eve''] = Inr RetNone"
proof (intro conjI impI)
  assume "kwargs ''source'' = None \<or> kwargs ''source'' = Some (StrV [])"
  then show "EVESpWxTimeSeries_is_datasource_for kwargs = Inr RetNone"
    "EVEScanTimeSeries_is_datasource_for kwargs = Inr RetNone"
    by (auto simp: EVESpWxTimeSeries_is_datasource_for_def
          EVEScanTimeSeries_is_datasource_for_def dict_get_def)
next
  assume "EVESpWxTimeSeries_is_datasource_for kwargs = Inr (RetBool b) \<or>
    EVEScanTimeSeries_is_datasource_for kwargs = Inr (RetBool b)"
  then show "\<exists>s. kwargs ''source'' = Some (StrV s) \<and> s \<noteq> []"
    by (auto simp: EVESpWxTimeSeries_is_datasource_for_def
          EVEScanTimeSeries_is_datasource_for_def dict_get_def re_match_I_def
          split: if_splits option.splits pyval.splits)
next
  show "RetNone \<noteq> RetBool False" by simp
  show "EVEScanTimeSeries_is_datasource_for [''source'' \<mapsto> StrV ''eve_l2''] =
     Inr (RetMatch ''eve_l2'')"
    by (simp add: EVEScanTimeSeries_is_datasource_for_def dict_get_def re_match_I_def
          eve_l2b_pattern_def at_dollar_def lower_char_def char_of_eq_iff)
  show "EVEScanTimeSeries_is_datasource_for [''source'' \<mapsto> StrV ''eve l2b''] =
     Inr (RetMatch ''eve l2b'')"
    by (simp add: EVEScanTimeSeries_is_datasource_for_def dict_get_def re_match_I_def
          eve_l2b_pattern_def at_dollar_def lower_char_def char_of_eq_iff)
  show "EVEScanTimeSeries_is_datasource_for [''source'' \<mapsto> StrV ''EVE_L2B''] =
     Inr (RetMatch ''EVE_L2B'')"
    by (simp add: EVEScanTimeSeries_is_datasource_for_def dict_get_def re_match_I_def
          eve_l2b_pattern_def at_dollar_def lower_char_def char_of_eq_iff)
  show "EVEScanTimeSeries_is_datasource_for [''source'' \<mapsto> StrV ''eve''] = Inr RetNone"
    by (simp add: EVEScanTimeSeries_is_datasource_for_def dict_get_def re_match_I_def
          eve_l2b_pattern_def at_dollar_def lower_char_def char_of_eq_iff)
qed

theorem is_datasource_for_none_witness:
  "EVESpWxTimeSeries_is_datasource_for Map.empty = Inr RetNone \<and>
   EVEScanTimeSeries_is_datasource_for Map.empty = Inr RetNone \<and>
   EVESpWxTimeSeries_is_datasource_for [''source'' \<mapsto> StrV []] = Inr RetNone \<and>
   EVEScanTimeSeries_is_datasource_for [''source'' \<mapsto> StrV []] = Inr RetNone \<and>
   EVESpWxTimeSeries_is_datasource_for [''source'' \<mapsto> StrV ''EVE''] = Inr (RetBool True)"
proof -
  have "EVESpWxTimeSeries_is_datasource_for [''source'' \<mapsto> StrV ''EVE''] = Inr (RetBool True)"
    by (simp add: EVESpWxTimeSeries_is_datasource_for_def dict_get_def
          EVESpWxTimeSeries_source_def lower_eval)
  then show ?thesis
    using is_datasource_for_none [of Map.empty]
      is_datasource_for_none [of "[''source'' \<mapsto> StrV []]"]
      is_datasource_for_none [of "[''source'' \<mapsto> StrV ''EVE'']" True]
    by simp
qed

end
